theory Spec2Isabelle
  imports Main "HOL-Library.Word" "HOL-Library.Char_ord"
begin

unbundle bit_operations_syntax

section \<open>Values shared by the parser and the matcher\<close>

text \<open>
  Modelled from the spec: the module \<^verbatim>\<open>breaktypes.mjs\<close> that both source files import is
  not among the sources. The README and the spec give its four members and their flag values
  (UNKNOWN 0, FORBIDDEN 1, MANDATORY 2, ALLOWED 4); \<open>flag\<close> is that table.
\<close>

datatype BreakType = UNKNOWN | FORBIDDEN | MANDATORY | ALLOWED

fun flag :: "BreakType \<Rightarrow> nat" where
  "flag UNKNOWN = 0"
| "flag FORBIDDEN = 1"
| "flag MANDATORY = 2"
| "flag ALLOWED = 4"

text \<open>
  The exceptions a call can end with: the two raised by the host (\<open>TypeError\<close> on a property
  of \<^verbatim>\<open>undefined\<close> or \<^verbatim>\<open>null\<close>, \<open>RangeError\<close> of \<^verbatim>\<open>String.fromCodePoint\<close>) and the
  \<^verbatim>\<open>Error(msg)\<close> the source throws itself.
\<close>

datatype error = TypeError | RangeError | Error string

text \<open>
  A JavaScript number as the matcher meets it: an integer, or \<open>NaN\<close>, which is what arithmetic
  on \<^verbatim>\<open>undefined\<close> gives. Positions handed to the checker are integers.
\<close>

datatype number = NaN | Num int

text \<open>The argument \<^verbatim>\<open>step\<close> of \<^verbatim>\<open>#consumeToken\<close>: \<^verbatim>\<open>#checkRule\<close> passes \<open>-1\<close> for the
  before side and \<open>1\<close> for the after side, and every recursive call passes it on.\<close>

datatype direction = Backward | Forward

fun delta :: "direction \<Rightarrow> int" where
  "delta Backward = - 1"
| "delta Forward = 1"

fun plus_step :: "number \<Rightarrow> direction \<Rightarrow> number" where
  "plus_step NaN d = NaN"
| "plus_step (Num k) d = Num (k + delta d)"

text \<open>\<^verbatim>\<open>xs[i]\<close>: \<^verbatim>\<open>undefined\<close> (here \<open>None\<close>) for a negative index, an index past the end
  and for \<open>NaN\<close>.\<close>

fun lookup :: "'a list \<Rightarrow> number \<Rightarrow> 'a option" where
  "lookup xs NaN = None"
| "lookup xs (Num k) = (if 0 \<le> k \<and> k < int (length xs) then Some (xs ! nat k) else None)"

section \<open>Pattern trees and rules\<close>

text \<open>
  A token \<^verbatim>\<open>{ type, content }\<close>. The parser creates the nine types below and no other, so
  the \<^verbatim>\<open>default\<close> branch of \<^verbatim>\<open>#consumeToken\<close> (\<^verbatim>\<open>Invalid token type\<close>) has no
  counterpart. The tokens \<^verbatim>\<open>eastasian\<close> and \<^verbatim>\<open>extpict\<close> carry their own name as content.
\<close>

datatype token =
    TBase string
  | TClass string
  | TGc string
  | TCodepoint nat
  | TExtpict
  | TEastasian
  | TModifier string
  | TSet "token list"
  | TSequence "token list"

text \<open>
  The one side-effect function of the shipped rule lists,
  \<^verbatim>\<open>function(cb, ...args) { cb(...args) }\<close>, and the one value registered as its argument,
  \<^verbatim>\<open>boundRemoveCombiningSequences\<close>.
\<close>

datatype side_effect = CallCallback

datatype side_effect_argument = BoundRemoveCombiningSequences

text \<open>The object \<^verbatim>\<open>ruleObj\<close> that \<^verbatim>\<open>parseRule\<close> returns; \<open>None\<close> is \<^verbatim>\<open>undefined\<close>.\<close>

record rule =
  before :: token
  after :: token
  name :: "string option"
  side_effect :: "side_effect option"
  rule_result :: "BreakType option"

text \<open>A raw rule \<^verbatim>\<open>[ string, side_effect?, name? ]\<close> of a rule list.\<close>

type_synonym raw_rule = "string \<times> side_effect option \<times> string option"

section \<open>The rule parser (ruleparser.mjs)\<close>

text \<open>
  A rule string is a list of code units; all symbols of the rule language lie below 256, so
  a \<open>char\<close> holds one code unit. The verdict symbols are U+00D7 and U+00F7. (In the stored
  copy of the parser their two UTF-8 bytes were re-decoded through a Thai code page; the rule
  lists of the same file and its header comment have the symbols themselves.)
\<close>

definition forbidden_symbol :: string where
  "forbidden_symbol = [CHR 0xD7]"

definition allowed_symbol :: string where
  "allowed_symbol = [CHR 0xF7]"

text \<open>\<^verbatim>\<open>\s\<close> restricted to code units below 256.\<close>

definition is_space :: "char \<Rightarrow> bool" where
  "is_space c = (of_char c \<in> {9, 10, 11, 12, 13, 32, 160 :: nat})"

text \<open>\<^verbatim>\<open>str.split(/\s+/)\<close>: the pieces between maximal runs of white space; a run at either
  end leaves an empty piece there, and the empty string gives one empty piece.\<close>

fun split_acc :: "string \<Rightarrow> bool \<Rightarrow> string \<Rightarrow> string list" where
  "split_acc cur in_run [] = [rev cur]"
| "split_acc cur in_run (c # cs) =
     (if is_space c then (if in_run then split_acc cur True cs else rev cur # split_acc [] True cs)
      else split_acc (c # cur) False cs)"

definition split :: "string \<Rightarrow> string list" where
  "split str = split_acc [] False str"

definition is_hex_digit :: "char \<Rightarrow> bool" where
  "is_hex_digit c = ((CHR ''0'' \<le> c \<and> c \<le> CHR ''9'') \<or> (CHR ''A'' \<le> c \<and> c \<le> CHR ''F'')
                      \<or> (CHR ''a'' \<le> c \<and> c \<le> CHR ''f''))"

definition is_upper_or_digit :: "char \<Rightarrow> bool" where
  "is_upper_or_digit c = ((CHR ''A'' \<le> c \<and> c \<le> CHR ''Z'') \<or> (CHR ''0'' \<le> c \<and> c \<le> CHR ''9''))"

definition is_gc_char :: "char \<Rightarrow> bool" where
  "is_gc_char c = ((CHR ''A'' \<le> c \<and> c \<le> CHR ''Z'') \<or> (CHR ''a'' \<le> c \<and> c \<le> CHR ''z'')
                     \<or> c = CHR ''&'')"

text \<open>
  The three \<^verbatim>\<open>case token.match(re)?.[0]\<close> labels compare the token with the first match of
  an unanchored pattern made of a fixed prefix, a greedy bounded repetition of one character
  class and a fixed suffix. The token equals that match exactly when the whole token has the
  pattern's shape, which is what the three predicates test.
\<close>

definition matches_codepoint :: "string \<Rightarrow> bool" where
  "matches_codepoint token =
     (take 2 token = [CHR 0x5C, CHR ''u''] \<and> 4 \<le> length (drop 2 token) \<and> length (drop 2 token) \<le> 6
      \<and> list_all is_hex_digit (drop 2 token))"

definition matches_gc :: "string \<Rightarrow> bool" where
  "matches_gc token =
     (length token = 6 \<and> take 3 token = ''gc('' \<and> list_all is_gc_char (take 2 (drop 3 token))
      \<and> drop 5 token = '')'')"

definition matches_class :: "string \<Rightarrow> bool" where
  "matches_class token = (2 \<le> length token \<and> length token \<le> 3 \<and> list_all is_upper_or_digit token)"

definition hex_digit_value :: "char \<Rightarrow> nat" where
  "hex_digit_value c =
     (if CHR ''0'' \<le> c \<and> c \<le> CHR ''9'' then of_char c - 48
      else if CHR ''A'' \<le> c \<and> c \<le> CHR ''F'' then of_char c - 55
      else of_char c - 87)"

text \<open>\<^verbatim>\<open>Number('0x' + digits)\<close> on hexadecimal digits.\<close>

definition hex_value :: "string \<Rightarrow> nat" where
  "hex_value digits = foldl (\<lambda>acc c. 16 * acc + hex_digit_value c) 0 digits"

text \<open>
  What one call of \<^verbatim>\<open>parseToken\<close> leaves behind: the tokens it pushed onto the array
  \<^verbatim>\<open>context\<close> it was given, the value of \<^verbatim>\<open>ruleObj.result\<close>, whether it returns
  \<^verbatim>\<open>ruleObj.after.content\<close> as the new context, and the index it returns.
\<close>

datatype parsed = Parsed (pushed: "token list") (result_now: "BreakType option")
                         (to_after: bool) (next_i: nat)

type_synonym token_args = "string list \<times> nat \<times> BreakType option"
type_synonym group_args = "string list \<times> nat \<times> string \<times> token list \<times> BreakType option"

fun parse_measure :: "token_args + group_args \<Rightarrow> nat" where
  "parse_measure (Inl (tokens, i, res)) = 2 * (length tokens - i)"
| "parse_measure (Inr (tokens, i, closer, content, res)) = 2 * (length tokens - i) + 1"

text \<open>
  \<open>parseToken\<close> is the method of that name; \<open>parse_group\<close> is the loop
  \<^verbatim>\<open>while (tokens[i] !== closer) [unused, i] = this.parseToken(tokens, i, newElem.content, ruleObj)\<close>
  of its two bracket cases, returning the content of \<^verbatim>\<open>newElem\<close>, \<^verbatim>\<open>ruleObj.result\<close> and the
  index of the closer. Past the end \<^verbatim>\<open>tokens[i]\<close> is \<^verbatim>\<open>undefined\<close>, the switch reaches
  \<^verbatim>\<open>token.match\<close> and the host raises \<open>TypeError\<close>.
\<close>

function parseToken :: "string list \<Rightarrow> nat \<Rightarrow> BreakType option \<Rightarrow> error + parsed"
  and parse_group ::
    "string list \<Rightarrow> nat \<Rightarrow> string \<Rightarrow> token list \<Rightarrow> BreakType option
       \<Rightarrow> error + (token list \<times> BreakType option \<times> nat)"
where
  "parseToken tokens i res =
     (if i \<ge> length tokens then Inl TypeError
      else let token = tokens ! i in
        if token = forbidden_symbol then Inr (Parsed [] (Some FORBIDDEN) True (i + 1))
        else if token = ''!'' then Inr (Parsed [] (Some MANDATORY) True (i + 1))
        else if token = allowed_symbol then Inr (Parsed [] (Some ALLOWED) True (i + 1))
        else if token = ''any'' \<or> token = ''sot'' \<or> token = ''eot''
          then Inr (Parsed [TBase token] res False (i + 1))
        else if token = ''eastasian'' then Inr (Parsed [TEastasian] res False (i + 1))
        else if token = ''extpict'' then Inr (Parsed [TExtpict] res False (i + 1))
        else if matches_codepoint token
          then Inr (Parsed [TCodepoint (hex_value (drop 2 token))] res False (i + 1))
        else if matches_gc token then Inr (Parsed [TGc (take 2 (drop 3 token))] res False (i + 1))
        else if matches_class token then Inr (Parsed [TClass token] res False (i + 1))
        else if token = ''^'' \<or> token = ''&'' \<or> token = ''-'' \<or> token = ''*''
          then Inr (Parsed [TModifier token] res False (i + 1))
        else if token = ''|'' then Inr (Parsed [] res False (i + 1))
        else if token = ''('' then
          (case parse_group tokens (i + 1) '')'' [] res of
             Inl e \<Rightarrow> Inl e
           | Inr (content, res', j) \<Rightarrow> Inr (Parsed [TSet content] res' False (j + 1)))
        else if token = '')'' then Inr (Parsed [] res False (i + 1))
        else if token = ''['' then
          (case parse_group tokens (i + 1) '']'' [] res of
             Inl e \<Rightarrow> Inl e
           | Inr (content, res', j) \<Rightarrow> Inr (Parsed [TSequence content] res' False (j + 1)))
        else if token = '']'' then Inr (Parsed [] res False (i + 1))
        else Inl (Error (''Unrecognized token: '' @ token)))"
| "parse_group tokens i closer content res =
     (if i \<ge> length tokens then Inl TypeError
      else if tokens ! i = closer then Inr (content, res, i)
      else
        (case parseToken tokens i res of
           Inl e \<Rightarrow> Inl e
         | Inr p \<Rightarrow> parse_group tokens (next_i p) closer (content @ pushed p) (result_now p)))"
  by pat_completeness auto

lemma parse_advances:
  "parseToken_parse_group_dom (Inl (tokens, i, res)) \<Longrightarrow>
     parseToken tokens i res = Inr p \<Longrightarrow> i < next_i p"
  "parseToken_parse_group_dom (Inr (tokens, i, closer, content, res)) \<Longrightarrow>
     parse_group tokens i closer content res = Inr (content', res', j) \<Longrightarrow> i \<le> j"
proof (induct arbitrary: p and content' res' j rule: parseToken_parse_group.pinduct)
  case (1 tokens i res)
  from "1.prems" "1.hyps"(1) show ?case
    apply (simp add: parseToken.psimps Let_def split: if_splits sum.splits prod.splits)
    apply (insert "1.hyps"(2-))
    apply (fastforce simp: Let_def)+
    done
next
  case (2 tokens i closer content res)
  from "2.prems" "2.hyps"(1) show ?case
    apply (simp add: parse_group.psimps split: if_splits sum.splits)
    apply (insert "2.hyps"(2-))
    apply fastforce
    done
qed

termination parseToken
  apply (relation "measure parse_measure")
  apply simp
  apply (auto dest!: parse_advances(1))
  done

declare parseToken.simps [simp del] parse_group.simps [simp del]


text \<open>\<^verbatim>\<open>cleanPart\<close>: a sequence whose only child is a sequence takes over the child's content
  (likewise a set), once; then every token of the content is cleaned.\<close>

fun cleanPart :: "token \<Rightarrow> token" where
  "cleanPart (TSequence [TSequence c]) = TSequence (map cleanPart c)"
| "cleanPart (TSet [TSet c]) = TSet (map cleanPart c)"
| "cleanPart (TSequence c) = TSequence (map cleanPart c)"
| "cleanPart (TSet c) = TSet (map cleanPart c)"
| "cleanPart t = t"

fun is_modifier :: "token \<Rightarrow> bool" where
  "is_modifier (TModifier m) = True"
| "is_modifier t = False"

text \<open>The loop \<^verbatim>\<open>for (let i = 1, e = content.length; i < e; i++)\<close> of \<^verbatim>\<open>reverseSequences\<close>,
  which swaps a modifier with the entry before it, in place.\<close>

function swap_modifiers :: "token list \<Rightarrow> nat \<Rightarrow> token list" where
  "swap_modifiers content i =
     (if i < length content then
        (if is_modifier (content ! i)
         then swap_modifiers (content[i := content ! (i - 1), i - 1 := content ! i]) (i + 1)
         else swap_modifiers content (i + 1))
      else content)"
  by pat_completeness auto
termination
  by (relation "measure (\<lambda>(content, i). length content - i)") auto

declare swap_modifiers.simps [simp del]

lemma set_swap_modifiers: "set (swap_modifiers content i) = set content"
proof (induction content i rule: swap_modifiers.induct)
  case (1 content i)
  show ?case
  proof (cases "i < length content \<and> is_modifier (content ! i)")
    case True
    then have "i < length content" and "i - 1 < length content"
      by arith+
    then have "set (content[i := content ! (i - 1), i - 1 := content ! i]) = set content"
      by (rule set_swap)
    with 1 True show ?thesis
      by (simp add: swap_modifiers.simps[of content i])
  next
    case False
    with 1 show ?thesis
      by (auto simp add: swap_modifiers.simps[of content i])
  qed
qed

function reverseSequences :: "token \<Rightarrow> token" where
  "reverseSequences (TSequence c) = TSequence (map reverseSequences (swap_modifiers (rev c) 1))"
| "reverseSequences (TSet c) = TSet (map reverseSequences c)"
| "reverseSequences (TBase b) = TBase b"
| "reverseSequences (TClass b) = TClass b"
| "reverseSequences (TGc b) = TGc b"
| "reverseSequences (TCodepoint n) = TCodepoint n"
| "reverseSequences TExtpict = TExtpict"
| "reverseSequences TEastasian = TEastasian"
| "reverseSequences (TModifier m) = TModifier m"
  by pat_completeness auto
termination
  by (relation "measure size") (auto simp: set_swap_modifiers less_Suc_eq_le size_list_estimation')

text \<open>The loop \<^verbatim>\<open>while (i < tokens.length) [context, i] = this.parseToken(tokens, i, context, ruleObj)\<close>
  of \<^verbatim>\<open>parseRule\<close>. \<open>in_after\<close> tells which of the two top-level arrays \<^verbatim>\<open>context\<close> is.\<close>

function parse_loop ::
  "string list \<Rightarrow> nat \<Rightarrow> bool \<Rightarrow> token list \<Rightarrow> token list \<Rightarrow> BreakType option
     \<Rightarrow> error + (token list \<times> token list \<times> BreakType option)"
where
  "parse_loop tokens i in_after before_content after_content res =
     (if i < length tokens then
        (case parseToken tokens i res of
           Inl e \<Rightarrow> Inl e
         | Inr p \<Rightarrow>
             parse_loop tokens (next_i p) (in_after \<or> to_after p)
               (if in_after then before_content else before_content @ pushed p)
               (if in_after then after_content @ pushed p else after_content)
               (result_now p))
      else Inr (before_content, after_content, res))"
  by pat_completeness auto

lemma next_i_greater: "parseToken tokens i res = Inr p \<Longrightarrow> i < next_i p"
  "parse_group tokens i closer content res = Inr (content', res', j) \<Longrightarrow> i \<le> j"
proof (induct arbitrary: p and content' res' j rule: parseToken_parse_group.induct)
  case (1 tokens i res)
  from "1.prems" show ?case
    apply (subst (asm) parseToken.simps)
    apply (simp add: Let_def split: if_splits sum.splits prod.splits)
    apply (insert "1.hyps")
    apply (fastforce simp: Let_def)+
    done
next
  case (2 tokens i closer content res)
  from "2.prems" show ?case
    apply (subst (asm) parse_group.simps)
    apply (simp split: if_splits sum.splits)
    apply (insert "2.hyps")
    apply fastforce
    done
qed

termination parse_loop
  by (relation "measure (\<lambda>(tokens, i, _). length tokens - i)")
     (auto dest!: next_i_greater(1))

declare parse_loop.simps [simp del]

text \<open>\<^verbatim>\<open>parseRule\<close>, with \<^verbatim>\<open>reverseBefore\<close> at its default \<^verbatim>\<open>true\<close>, as \<^verbatim>\<open>#parseRules\<close>
  constructs the parser.\<close>

definition parseRule :: "raw_rule \<Rightarrow> error + rule" where
  "parseRule raw =
     (case raw of (str, se, nm) \<Rightarrow>
        (case parse_loop (split str) 0 False [] [] None of
           Inl e \<Rightarrow> Inl e
         | Inr (before_content, after_content, res) \<Rightarrow>
             Inr \<lparr> before = reverseSequences (cleanPart (TSequence before_content)),
                   after = cleanPart (TSequence after_content),
                   name = nm, side_effect = se, rule_result = res \<rparr>))"

text \<open>\<^verbatim>\<open>rules.map(r => p.parseRule(r))\<close>: the first rule that fails ends the call.\<close>

fun parseRules :: "raw_rule list \<Rightarrow> error + rule list" where
  "parseRules [] = Inr []"
| "parseRules (r # rs) =
     (case parseRule r of
        Inl e \<Rightarrow> Inl e
      | Inr x \<Rightarrow> (case parseRules rs of Inl e \<Rightarrow> Inl e | Inr xs \<Rightarrow> Inr (x # xs)))"

section \<open>The rule list of Unicode 17 (linebreakingrules.mjs)\<close>

definition lineBreakingRulesV17 :: "raw_rule list" where
  "lineBreakingRulesV17 = [
     (''sot '' @ forbidden_symbol @ '' any'', None, None),
     (''any ! eot'', None, None),
     (''BK ! any'', None, None),
     (''CR '' @ forbidden_symbol @ '' LF'', None, None),
     (''( CR | LF | NL ) ! any'', None, None),
     (''any '' @ forbidden_symbol @ '' ( BK | CR | LF | NL )'', None, None),
     (''any '' @ forbidden_symbol @ '' ( SP | ZW )'', None, None),
     (''[ ZW * SP ] '' @ allowed_symbol @ '' any'', None, None),
     (''ZWJ '' @ forbidden_symbol @ '' any'', None, None),
     (''^ ( sot | BK | CR | LF | NL | SP | ZW ) '' @ forbidden_symbol @ '' ( CM | ZWJ )'', Some CallCallback, Some ''std_remove_cm_sequences''),
     (''any '' @ forbidden_symbol @ '' WJ'', None, None),
     (''WJ '' @ forbidden_symbol @ '' any'', None, None),
     (''GL '' @ forbidden_symbol @ '' any'', None, None),
     (''^ ( SP | BA | HY | HH ) '' @ forbidden_symbol @ '' GL'', None, None),
     (''any '' @ forbidden_symbol @ '' ( CL | CP | EX | SY )'', None, None),
     (''[ OP * SP ] '' @ forbidden_symbol @ '' any'', None, None),
     (''[ ( sot | BK | CR | LF | NL | OP | QU | GL | SP | ZW ) ( gc(Pi) & QU ) * SP ] '' @ forbidden_symbol @ '' any'', None, None),
     (''any '' @ forbidden_symbol @ '' [ ( gc(Pf) & QU ) ( SP | GL | WJ | CL | QU | CP | EX | IS | SY | BK | CR | LF | NL | ZW | eot ) ]'', None, None),
     (''SP '' @ allowed_symbol @ '' [ IS NU ]'', None, None),
     (''any '' @ forbidden_symbol @ '' IS'', None, None),
     (''[ ( CL | CP ) * SP ] '' @ forbidden_symbol @ '' NS'', None, None),
     (''[ B2 * SP ] '' @ forbidden_symbol @ '' B2'', None, None),
     (''SP '' @ allowed_symbol @ '' any'', None, None),
     (''any '' @ forbidden_symbol @ '' ( QU - gc(Pi) )'', None, None),
     (''( QU - gc(Pf) ) '' @ forbidden_symbol @ '' any'', None, None),
     (''^ eastasian '' @ forbidden_symbol @ '' QU'', None, None),
     (''any '' @ forbidden_symbol @ '' [ QU ( ^ eastasian | eot ) ]'', None, None),
     (''QU '' @ forbidden_symbol @ '' ^ eastasian'', None, None),
     (''[ ( sot | ^ eastasian ) QU ] '' @ forbidden_symbol @ '' any'', None, None),
     (''any '' @ allowed_symbol @ '' CB'', None, None),
     (''CB '' @ allowed_symbol @ '' any'', None, None),
     (''[ ( sot | BK | CR | LF | NL | SP | ZW | CB | GL ) ( HY | HH ) ] '' @ forbidden_symbol @ '' ( AL | HL )'', None, None),
     (''any '' @ forbidden_symbol @ '' ( BA | HH | HY | NS )'', None, None),
     (''BB '' @ forbidden_symbol @ '' any'', None, None),
     (''[ HL ( HY | HH ) ] '' @ forbidden_symbol @ '' ^ HL'', None, None),
     (''SY '' @ forbidden_symbol @ '' HL'', None, None),
     (''any '' @ forbidden_symbol @ '' IN'', None, None),
     (''( AL | HL ) '' @ forbidden_symbol @ '' NU'', None, None),
     (''NU '' @ forbidden_symbol @ '' ( AL | HL )'', None, None),
     (''PR '' @ forbidden_symbol @ '' ( ID | EB | EM )'', None, None),
     (''( ID | EB | EM ) '' @ forbidden_symbol @ '' PO'', None, None),
     (''( PR | PO ) '' @ forbidden_symbol @ '' ( AL | HL )'', None, None),
     (''( AL | HL ) '' @ forbidden_symbol @ '' ( PR | PO )'', None, None),
     (''[ NU * ( SY | IS ) ( CL | CP ) ] '' @ forbidden_symbol @ '' ( PO | PR )'', None, None),
     (''[ NU * ( SY | IS ) ] '' @ forbidden_symbol @ '' ( PO | PR | NU )'', None, None),
     (''( PO | PR ) '' @ forbidden_symbol @ '' [ OP NU ]'', None, None),
     (''( PO | PR ) '' @ forbidden_symbol @ '' [ OP IS NU ]'', None, None),
     (''( PO | PR | HY | IS ) '' @ forbidden_symbol @ '' NU'', None, None),
     (''JL '' @ forbidden_symbol @ '' ( JL | JV | H2 | H3 )'', None, None),
     (''( JV | H2 ) '' @ forbidden_symbol @ '' ( JV | JT )'', None, None),
     (''( JT | H3 ) '' @ forbidden_symbol @ '' JT'', None, None),
     (''( JL | JV | JT | H2 | H3 ) '' @ forbidden_symbol @ '' PO'', None, None),
     (''PR '' @ forbidden_symbol @ '' ( JL | JV | JT | H2 | H3 )'', None, None),
     (''( AL | HL ) '' @ forbidden_symbol @ '' ( AL | HL )'', None, None),
     (''AP '' @ forbidden_symbol @ '' ( AK | '' @ [CHR 0x5C] @ ''u25CC | AS )'', None, None),
     (''( AK | '' @ [CHR 0x5C] @ ''u25CC | AS ) '' @ forbidden_symbol @ '' ( VF | VI )'', None, None),
     (''[ ( AK | '' @ [CHR 0x5C] @ ''u25CC | AS ) VI ] '' @ forbidden_symbol @ '' ( AK | '' @ [CHR 0x5C] @ ''u25CC )'', None, None),
     (''( AK | '' @ [CHR 0x5C] @ ''u25CC | AS ) '' @ forbidden_symbol @ '' [ ( AK | '' @ [CHR 0x5C] @ ''u25CC | AS ) VF ]'', None, None),
     (''IS '' @ forbidden_symbol @ '' ( AL | HL )'', None, None),
     (''( AL | HL | NU ) '' @ forbidden_symbol @ '' ( OP - eastasian )'', None, None),
     (''( CP - eastasian ) '' @ forbidden_symbol @ '' ( AL | HL | NU )'', None, None),
     (''[ sot * [ RI RI ] RI ] '' @ forbidden_symbol @ '' RI'', None, None),
     (''[ ^ RI * [ RI RI ] RI ] '' @ forbidden_symbol @ '' RI'', None, None),
     (''EB '' @ forbidden_symbol @ '' EM'', None, None),
     (''( extpict & gc(Cn) ) '' @ forbidden_symbol @ '' EM'', None, None),
     (''any '' @ allowed_symbol @ '' any'', None, None)]"


section \<open>The checker (linebreakingchecker.mjs)\<close>

text \<open>An entry \<^verbatim>\<open>{ line_breaking_class, general_category }\<close> of the class table.\<close>

record table_entry =
  line_breaking_class :: string
  general_category :: string

text \<open>
  The private fields of \<^verbatim>\<open>LineBreakingChecker\<close>. A class is a string or \<^verbatim>\<open>undefined\<close>.
  Instead of the two keys into the module-level maps the record holds what they stand for:
  \<open>classTable\<close> is the array \<^verbatim>\<open>codePointsBLClasses.get(classesKey)\<close> and \<open>eastAsian\<close> the set
  \<^verbatim>\<open>eastAsianCodePoints.get(eastAsianKey)\<close>, both filled once by \<^verbatim>\<open>makeLBC\<close> from data files
  that are not part of the sources. \<open>extPict\<close> is the set of code points the host's
  \<^verbatim>\<open>\p{Extended_Pictographic}\<close> accepts. The text is a list of UTF-16 code units.
\<close>

record LineBreakingChecker =
  lbc_text :: "16 word list"
  codePoints :: "nat list"
  offsetsSurrogates :: "nat list"
  assignLineBreakingClsCriteria :: "(string option \<Rightarrow> string \<Rightarrow> string option) option"
  classTable :: "nat \<Rightarrow> table_entry option"
  eastAsian :: "nat set"
  extPict :: "nat set"
  classes :: "string option list"
  rules :: "rule list"
  sideEffectArguments :: "string \<Rightarrow> side_effect_argument list option"
  origClasses :: "string option list"
  origCodePoints :: "nat list"
  classesWithoutCS :: "string option list"
  codePointsWithoutCS :: "nat list"
  offsetsCombiningSeqs :: "nat list"
  applyOffset :: bool

subsection \<open>Installing a text\<close>

definition getClsAndGC :: "LineBreakingChecker \<Rightarrow> nat \<Rightarrow> string option \<times> string" where
  "getClsAndGC st codePoint =
     (case classTable st codePoint of
        None \<Rightarrow> (None, [])
      | Some e \<Rightarrow> (Some (line_breaking_class e), general_category e))"

text \<open>The host's \<^verbatim>\<open>codePointAt(i)\<close> for \<open>i\<close> inside the string.\<close>

definition codePointAt :: "16 word list \<Rightarrow> nat \<Rightarrow> nat" where
  "codePointAt s i =
     (let first = unat (s ! i) in
      if 0xD800 \<le> first \<and> first \<le> 0xDBFF \<and> i + 1 < length s then
        (let second = unat (s ! (i + 1)) in
         if 0xDC00 \<le> second \<and> second \<le> 0xDFFF
         then (first - 0xD800) * 0x400 + (second - 0xDC00) + 0x10000
         else first)
      else first)"

text \<open>The loop of \<^verbatim>\<open>#setCodePoints\<close>; the result is \<^verbatim>\<open>#codePoints\<close> and \<^verbatim>\<open>#offsetsSurrogates\<close>.\<close>

function setCodePoints_loop ::
  "16 word list \<Rightarrow> nat \<Rightarrow> nat list \<Rightarrow> nat list \<Rightarrow> nat \<Rightarrow> bool \<Rightarrow> nat list \<times> nat list"
where
  "setCodePoints_loop s i cps offsets offset highSurrogate =
     (if i < length s then
        (let codePoint = codePointAt s i;
             cps' = (if \<not> highSurrogate then cps @ [codePoint] else cps)
         in if codePoint > 65535
            then setCodePoints_loop s (i + 1) cps' (offsets @ [offset]) (offset + 1) True
            else setCodePoints_loop s (i + 1) cps' (offsets @ [offset]) offset False)
      else (cps, offsets @ [offset]))"
  by pat_completeness auto
termination
  by (relation "measure (\<lambda>(s, i, _). length s - i)") auto

declare setCodePoints_loop.simps [simp del]

definition setCodePoints :: "LineBreakingChecker \<Rightarrow> LineBreakingChecker" where
  "setCodePoints st =
     (case setCodePoints_loop (lbc_text st) 0 [] [] 0 False of
        (cps, offsets) \<Rightarrow> st\<lparr> codePoints := cps, offsetsSurrogates := offsets \<rparr>)"

definition isSurrogate :: "nat \<Rightarrow> bool" where
  "isSurrogate n = (n \<ge> 0xD800 \<and> n \<le> 0xDFFF)"

definition isSurrogatePair :: "nat \<Rightarrow> nat \<Rightarrow> bool" where
  "isSurrogatePair lead trail =
     (lead \<ge> 0xD800 \<and> lead \<le> 0xDBFF \<and> trail \<ge> 0xDC00 \<and> trail \<le> 0xDFFF)"

text \<open>The \<^verbatim>\<open>switch (cls)\<close> of \<^verbatim>\<open>#assignLineBreakingClasses\<close>, taken when no criterion is given.\<close>

definition resolve_class :: "string option \<Rightarrow> string \<Rightarrow> string option" where
  "resolve_class cls gc =
     (if cls = Some ''AI'' \<or> cls = Some ''SG'' \<or> cls = Some ''XX'' then Some ''AL''
      else if cls = Some ''SA'' then (if gc = ''Mn'' \<or> gc = ''Mc'' then Some ''CM'' else Some ''AL'')
      else if cls = Some ''CJ'' then Some ''NS''
      else cls)"

definition assignLineBreakingClasses ::
  "LineBreakingChecker \<Rightarrow> (string option \<Rightarrow> string \<Rightarrow> string option) option \<Rightarrow> string option list"
where
  "assignLineBreakingClasses st criteria =
     map (\<lambda>c. case getClsAndGC st c of
                 (cls, gc) \<Rightarrow> (case criteria of None \<Rightarrow> resolve_class cls gc | Some f \<Rightarrow> f cls gc))
         (codePoints st)"

text \<open>\<^verbatim>\<open>!prevCls\<close>: no class yet, an \<^verbatim>\<open>undefined\<close> class, or the empty string.\<close>

definition falsy :: "string option \<Rightarrow> bool" where
  "falsy c = (c = None \<or> c = Some [])"

definition is_combining :: "string option \<Rightarrow> bool" where
  "is_combining el = (el = Some ''CM'' \<or> el = Some ''ZWJ'')"

definition starts_line :: "string option \<Rightarrow> bool" where
  "starts_line prevCls =
     (falsy prevCls \<or> prevCls \<in> {Some ''SP'', Some ''BK'', Some ''CR'', Some ''LF'', Some ''NL'', Some ''ZW''})"

text \<open>
  The loop of \<^verbatim>\<open>#setCombiningSequencesMaps\<close> over \<^verbatim>\<open>this.#classes.entries()\<close>. Entry \<open>i\<close> comes
  with \<^verbatim>\<open>this.#codePoints[i]\<close>: \<^verbatim>\<open>setText\<close> has just filled \<^verbatim>\<open>#classes\<close> with one class per
  code point, so the loop runs over the pairs. The result is \<^verbatim>\<open>#classesWithoutCS\<close>,
  \<^verbatim>\<open>#codePointsWithoutCS\<close> and \<^verbatim>\<open>#offsetsCombiningSeqs\<close>, the last with the final push.
\<close>

fun combining_loop ::
  "(string option \<times> nat) list \<Rightarrow> string option \<Rightarrow> nat \<Rightarrow> string option list \<times> nat list \<times> nat list"
where
  "combining_loop [] prevCls totOffset = ([], [], [totOffset])"
| "combining_loop ((el, cp) # rest) prevCls totOffset =
     (if is_combining el then
        (if starts_line prevCls then
           (case combining_loop rest el totOffset of
              (cs, cps, offs) \<Rightarrow> (Some ''AL'' # cs, 0x41 # cps, totOffset # offs))
         else
           (case combining_loop rest el (totOffset + 1) of
              (cs, cps, offs) \<Rightarrow> (cs, cps, (totOffset + 1) # offs)))
      else
        (case combining_loop rest el totOffset of
           (cs, cps, offs) \<Rightarrow> (el # cs, cp # cps, totOffset # offs)))"

definition setCombiningSequencesMaps :: "LineBreakingChecker \<Rightarrow> LineBreakingChecker" where
  "setCombiningSequencesMaps st =
     (case combining_loop (zip (classes st) (codePoints st)) None 0 of
        (cs, cps, offs) \<Rightarrow>
          st\<lparr> classesWithoutCS := cs, offsetsCombiningSeqs := offs, codePointsWithoutCS := cps,
               applyOffset := False \<rparr>)"

definition setText :: "LineBreakingChecker \<Rightarrow> 16 word list \<Rightarrow> LineBreakingChecker" where
  "setText st s =
     (let st1 = setCodePoints (st\<lparr> lbc_text := s \<rparr>);
          st2 = st1\<lparr> classes := assignLineBreakingClasses st1 (assignLineBreakingClsCriteria st1) \<rparr>;
          st3 = setCombiningSequencesMaps st2
      in st3\<lparr> origClasses := classes st3, origCodePoints := codePoints st3 \<rparr>)"

text \<open>
  The constructor: parse the rules, register the argument of the standard side effect, keep the
  criterion and the two table keys. The fields that \<^verbatim>\<open>setText\<close> assigns are \<^verbatim>\<open>undefined\<close>
  until then; the record starts them empty, and everything below is about a checker after
  \<^verbatim>\<open>setText\<close>.
\<close>

definition initial_checker ::
  "(string option \<Rightarrow> string \<Rightarrow> string option) option \<Rightarrow> rule list \<Rightarrow> (nat \<Rightarrow> table_entry option)
     \<Rightarrow> nat set \<Rightarrow> nat set \<Rightarrow> LineBreakingChecker"
where
  "initial_checker criteria parsed_rules table east_asian ext_pict =
     \<lparr> lbc_text = [], codePoints = [], offsetsSurrogates = [],
       assignLineBreakingClsCriteria = criteria,
       classTable = table, eastAsian = east_asian, extPict = ext_pict,
       classes = [], rules = parsed_rules,
       sideEffectArguments = [''std_remove_cm_sequences'' \<mapsto> [BoundRemoveCombiningSequences]],
       origClasses = [], origCodePoints = [], classesWithoutCS = [],
       codePointsWithoutCS = [], offsetsCombiningSeqs = [], applyOffset = False \<rparr>"

definition new_checker ::
  "(string option \<Rightarrow> string \<Rightarrow> string option) option \<Rightarrow> raw_rule list \<Rightarrow> (nat \<Rightarrow> table_entry option)
     \<Rightarrow> nat set \<Rightarrow> nat set \<Rightarrow> error + LineBreakingChecker"
where
  "new_checker criteria raw_rules table east_asian ext_pict =
     (case parseRules raw_rules of
        Inl e \<Rightarrow> Inl e
      | Inr parsed_rules \<Rightarrow> Inr (initial_checker criteria parsed_rules table east_asian ext_pict))"

subsection \<open>Matching one pattern\<close>

text \<open>
  The result \<^verbatim>\<open>{ result, index, next_token_index }\<close> of \<^verbatim>\<open>#consumeToken\<close>; the last field is
  absent from what the non-modifier cases return.
\<close>

datatype res = Res (result: bool) (index: number) (next_token_index: "nat option")

definition checkBase :: "LineBreakingChecker \<Rightarrow> string \<Rightarrow> number \<Rightarrow> error + bool" where
  "checkBase st base i =
     (if base = ''any'' then Inr True
      else if base = ''sot'' then Inr (case i of NaN \<Rightarrow> False | Num k \<Rightarrow> k < 0)
      else if base = ''eot'' then Inr (i = Num (int (length (codePoints st))))
      else Inl (Error (''Invalid rule base value: '' @ base)))"

definition checkClass :: "LineBreakingChecker \<Rightarrow> string \<Rightarrow> number \<Rightarrow> bool" where
  "checkClass st cls i = (lookup (classes st) i = Some (Some cls))"

text \<open>\<^verbatim>\<open>getGeneralCategory\<close>: \<^verbatim>\<open>table[codePoint]?.general_category\<close>, where the code point itself
  is \<^verbatim>\<open>undefined\<close> when the index was out of range.\<close>

definition getGeneralCategory :: "LineBreakingChecker \<Rightarrow> nat option \<Rightarrow> string option" where
  "getGeneralCategory st codePoint =
     (case codePoint of None \<Rightarrow> None
      | Some c \<Rightarrow> (case classTable st c of None \<Rightarrow> None | Some e \<Rightarrow> Some (general_category e)))"

definition checkGeneralCategory :: "LineBreakingChecker \<Rightarrow> string \<Rightarrow> number \<Rightarrow> bool" where
  "checkGeneralCategory st gc i = (Some gc = getGeneralCategory st (lookup (codePoints st) i))"

definition checkCodePoint :: "LineBreakingChecker \<Rightarrow> nat \<Rightarrow> number \<Rightarrow> bool" where
  "checkCodePoint st cp i = (Some cp = lookup (codePoints st) i)"

definition checkExtPict :: "LineBreakingChecker \<Rightarrow> number \<Rightarrow> error + bool" where
  "checkExtPict st i =
     (case lookup (codePoints st) i of
        None \<Rightarrow> Inl RangeError
      | Some c \<Rightarrow> if c > 0x10FFFF then Inl RangeError else Inr (c \<in> extPict st))"

definition checkEastAsian :: "LineBreakingChecker \<Rightarrow> number \<Rightarrow> bool" where
  "checkEastAsian st i =
     (case lookup (codePoints st) i of None \<Rightarrow> False | Some c \<Rightarrow> c \<in> eastAsian st)"

definition interior :: "LineBreakingChecker \<Rightarrow> number \<Rightarrow> bool" where
  "interior st i = (case i of NaN \<Rightarrow> False | Num k \<Rightarrow> k > 0 \<and> k < int (length (codePoints st)) - 1)"

fun content_is_star :: "token \<Rightarrow> bool" where
  "content_is_star (TModifier m) = (m = ''*'')"
| "content_is_star (TBase m) = (m = ''*'')"
| "content_is_star (TClass m) = (m = ''*'')"
| "content_is_star (TGc m) = (m = ''*'')"
| "content_is_star _ = False"

definition stops_set :: "token list \<Rightarrow> nat \<Rightarrow> bool" where
  "stops_set content k =
     (if k < length content then
        (case content ! k of
           TModifier m \<Rightarrow> m = ''*'' \<or> m = ''^''
         | _ \<Rightarrow> True)
      else True)"

definition next_or :: "res \<Rightarrow> nat \<Rightarrow> nat" where
  "next_or r k = (case next_token_index r of None \<Rightarrow> k | Some n \<Rightarrow> n)"

type_synonym consume_args = "LineBreakingChecker \<times> token \<times> number \<times> direction \<times> (token list \<times> nat) option \<times> bool option"
type_synonym star_args = "LineBreakingChecker \<times> token list \<times> nat \<times> direction \<times> res"
type_synonym loop_args = "LineBreakingChecker \<times> token list \<times> number \<times> direction \<times> nat \<times> bool option \<times> number"

fun tree_measure :: "(consume_args + star_args) + (loop_args + loop_args) \<Rightarrow> nat" where
  "tree_measure (Inl (Inl (st, TModifier m, i, step, None, prev))) = 0"
| "tree_measure (Inl (Inl (st, TModifier m, i, step, Some (content, nti), prev))) = size_list size content"
| "tree_measure (Inl (Inl (st, tok, i, step, parent, prev))) = size tok"
| "tree_measure (Inl (Inr (st, content, nti, step, r))) = size_list size content"
| "tree_measure (Inr (Inl (st, content, i, step, token_i, prev, idx))) = size_list size content"
| "tree_measure (Inr (Inr (st, content, i, step, token_i, prev, idx))) = size_list size content"

fun sibling_measure :: "(consume_args + star_args) + (loop_args + loop_args) \<Rightarrow> nat" where
  "sibling_measure (Inl (Inl (st, TModifier m, i, step, Some (content, nti), prev))) = 2 * (length content + 1 - nti)"
| "sibling_measure (Inl (Inl (st, tok, i, step, parent, prev))) = 0"
| "sibling_measure (Inl (Inr (st, content, nti, step, r))) = 2 * (length content + 1 - nti) - 1"
| "sibling_measure (Inr (Inl (st, content, i, step, token_i, prev, idx))) = 2 * (length content + 1 - token_i) - 1"
| "sibling_measure (Inr (Inr (st, content, i, step, token_i, prev, idx))) = 2 * (length content + 1 - token_i) - 1"

fun remaining :: "LineBreakingChecker \<Rightarrow> direction \<Rightarrow> number \<Rightarrow> nat" where
  "remaining st d NaN = 0"
| "remaining st Forward (Num k) = nat (int (length (codePoints st)) - 1 - k)"
| "remaining st Backward (Num k) = nat k"

fun index_measure :: "(consume_args + star_args) + (loop_args + loop_args) \<Rightarrow> nat" where
  "index_measure (Inl (Inr (st, content, nti, step, r))) =
     (if result r \<and> interior st (index r) then remaining st step (index r) else 0)"
| "index_measure x = 0"

text \<open>
  \<^verbatim>\<open>#consumeToken(token, i, step, parent, prev_result, next_token_index)\<close>. The arguments
  \<^verbatim>\<open>parent\<close> and \<^verbatim>\<open>next_token_index\<close> are \<^verbatim>\<open>null\<close> together (the call from \<^verbatim>\<open>#checkRule\<close>) or
  set together; they travel as one optional pair of \<^verbatim>\<open>parent.content\<close> and the index. A
  modifier reads \<^verbatim>\<open>parent.content[next_token_index]\<close>: with a \<^verbatim>\<open>null\<close> parent, or past the end
  of the content (the callee then reads \<^verbatim>\<open>token.type\<close> of \<^verbatim>\<open>undefined\<close>), the host raises
  \<open>TypeError\<close>. \<open>star_loop\<close>, \<open>set_loop\<close> and \<open>seq_loop\<close> are the three \<^verbatim>\<open>while\<close> loops.
\<close>

function consumeToken ::
    "LineBreakingChecker \<Rightarrow> token \<Rightarrow> number \<Rightarrow> direction \<Rightarrow> (token list \<times> nat) option \<Rightarrow> bool option \<Rightarrow> error + res"
  and star_loop ::
    "LineBreakingChecker \<Rightarrow> token list \<Rightarrow> nat \<Rightarrow> direction \<Rightarrow> res \<Rightarrow> error + res"
  and set_loop ::
    "LineBreakingChecker \<Rightarrow> token list \<Rightarrow> number \<Rightarrow> direction \<Rightarrow> nat \<Rightarrow> bool option \<Rightarrow> number \<Rightarrow> error + res"
  and seq_loop ::
    "LineBreakingChecker \<Rightarrow> token list \<Rightarrow> number \<Rightarrow> direction \<Rightarrow> nat \<Rightarrow> bool option \<Rightarrow> number \<Rightarrow> error + res"
where
  "consumeToken st (TBase c) i step parent prev_result =
     (case checkBase st c i of Inl e \<Rightarrow> Inl e | Inr b \<Rightarrow> Inr (Res b i None))"
| "consumeToken st (TClass c) i step parent prev_result = Inr (Res (checkClass st c i) i None)"
| "consumeToken st (TGc c) i step parent prev_result = Inr (Res (checkGeneralCategory st c i) i None)"
| "consumeToken st (TCodepoint c) i step parent prev_result = Inr (Res (checkCodePoint st c i) i None)"
| "consumeToken st TExtpict i step parent prev_result =
     (case checkExtPict st i of Inl e \<Rightarrow> Inl e | Inr b \<Rightarrow> Inr (Res b i None))"
| "consumeToken st TEastasian i step parent prev_result = Inr (Res (checkEastAsian st i) i None)"
| "consumeToken st (TModifier m) i step parent prev_result =
     (if m = ''^'' then
        (case parent of
           None \<Rightarrow> Inl TypeError
         | Some (content, nti) \<Rightarrow>
             if nti < length content then
               (case consumeToken st (content ! nti) i step (Some (content, nti + 1)) prev_result of
                  Inl e \<Rightarrow> Inl e
                | Inr r \<Rightarrow> Inr (Res (\<not> result r) (index r) (Some (next_or r (nti + 1)))))
             else Inl TypeError)
      else if m = ''&'' then
        (if prev_result = Some False then
           Inr (Res False i (Some (case parent of None \<Rightarrow> 1 | Some (content, nti) \<Rightarrow> nti + 1)))
         else
           (case parent of
              None \<Rightarrow> Inl TypeError
            | Some (content, nti) \<Rightarrow>
                if nti < length content then
                  (case consumeToken st (content ! nti) i step (Some (content, nti + 1)) prev_result of
                     Inl e \<Rightarrow> Inl e
                   | Inr r \<Rightarrow> Inr (Res (result r) (index r) (Some (next_or r (nti + 1)))))
                else Inl TypeError))
      else if m = ''-'' then
        (if prev_result = Some False then
           Inr (Res False i (Some (case parent of None \<Rightarrow> 1 | Some (content, nti) \<Rightarrow> nti + 1)))
         else
           (case parent of
              None \<Rightarrow> Inl TypeError
            | Some (content, nti) \<Rightarrow>
                if nti < length content then
                  (case consumeToken st (content ! nti) i step (Some (content, nti + 1)) prev_result of
                     Inl e \<Rightarrow> Inl e
                   | Inr r \<Rightarrow> Inr (Res (\<not> result r) (index r) (Some (next_or r (nti + 1)))))
                else Inl TypeError))
      else if m = ''*'' then
        (case parent of
           None \<Rightarrow> Inl TypeError
         | Some (content, nti) \<Rightarrow>
             if nti < length content then
               (case consumeToken st (content ! nti) i step (Some (content, nti + 1)) prev_result of
                  Inl e \<Rightarrow> Inl e
                | Inr r0 \<Rightarrow>
                    (case star_loop st content nti step r0 of
                       Inl e \<Rightarrow> Inl e
                     | Inr r \<Rightarrow> Inr (Res True (index r) (Some (next_or r (nti + 1))))))
             else Inl TypeError)
      else Inl (Error (''Invalid modifier value: '' @ m)))"
| "consumeToken st (TSet content) i step parent prev_result = set_loop st content i step 0 None i"
| "consumeToken st (TSequence content) i step parent prev_result = seq_loop st content i step 0 None i"
| "star_loop st content nti step r =
     (if result r \<and> interior st (index r) then
        (if nti < length content then
           (case consumeToken st (content ! nti) (plus_step (index r) step) step
                   (Some (content, nti + 1)) (Some (result r)) of
              Inl e \<Rightarrow> Inl e
            | Inr r' \<Rightarrow> star_loop st content nti step r')
         else Inl TypeError)
      else Inr r)"
| "set_loop st content i step token_i prev idx =
     (if token_i < length content then
        (case consumeToken st (content ! token_i) idx step (Some (content, token_i + 1)) prev of
           Inl e \<Rightarrow> Inl e
         | Inr r \<Rightarrow>
             if result r \<and> stops_set content (next_or r (token_i + 1)) then Inr (Res True i None)
             else set_loop st content i step (next_or r (token_i + 1)) (Some (result r)) (index r))
      else Inr (Res False i None))"
| "seq_loop st content i step token_i prev idx =
     (if token_i < length content then
        (case consumeToken st (content ! token_i) idx step (Some (content, token_i + 1)) prev of
           Inl e \<Rightarrow> Inl e
         | Inr r \<Rightarrow>
             if \<not> result r then Inr (Res False i None)
             else seq_loop st content i step (next_or r (token_i + 1)) (Some (result r))
                    (if content_is_star (content ! token_i) then index r else plus_step (index r) step))
      else Inr (Res True idx None))"
  by pat_completeness auto


fun dir_le :: "direction \<Rightarrow> number \<Rightarrow> number \<Rightarrow> bool" where
  "dir_le d NaN NaN = True"
| "dir_le Forward (Num a) (Num b) = (a \<le> b)"
| "dir_le Backward (Num a) (Num b) = (b \<le> a)"
| "dir_le d x y = False"

lemma dir_le_refl [simp]: "dir_le d x x"
  by (cases d; cases x) auto

lemma dir_le_trans: "dir_le d x y \<Longrightarrow> dir_le d y z \<Longrightarrow> dir_le d x z"
  by (cases d; cases x; cases y; cases z) auto

lemma dir_le_plus_step [simp]: "dir_le d x (plus_step x d)"
  by (cases d; cases x) auto

definition parent_lt :: "(token list \<times> nat) option \<Rightarrow> res \<Rightarrow> bool" where
  "parent_lt parent r =
     (case parent of None \<Rightarrow> True
      | Some (content, nti) \<Rightarrow> (case next_token_index r of None \<Rightarrow> True | Some k \<Rightarrow> nti < k))"

lemma progress:
  "consumeToken_star_loop_set_loop_seq_loop_dom (Inl (Inl (st, tok, i, step, parent, prev_result))) \<Longrightarrow>
     consumeToken st tok i step parent prev_result = Inr r \<Longrightarrow>
     dir_le step i (index r) \<and> parent_lt parent r"
  "consumeToken_star_loop_set_loop_seq_loop_dom (Inl (Inr (st, content, nti, step, r0))) \<Longrightarrow>
     star_loop st content nti step r0 = Inr r \<Longrightarrow>
     dir_le step (index r0) (index r) \<and>
     (parent_lt (Some (content, nti + 1)) r0 \<longrightarrow> parent_lt (Some (content, nti + 1)) r)"
  "consumeToken_star_loop_set_loop_seq_loop_dom (Inr (Inl (st, content, i, step, token_i, prev, idx))) \<Longrightarrow>
     set_loop st content i step token_i prev idx = Inr r \<Longrightarrow>
     index r = i \<and> next_token_index r = None"
  "consumeToken_star_loop_set_loop_seq_loop_dom (Inr (Inr (st, content, i, step, token_i, prev, idx))) \<Longrightarrow>
     seq_loop st content i step token_i prev idx = Inr r \<Longrightarrow> dir_le step i idx \<Longrightarrow>
     dir_le step i (index r) \<and> next_token_index r = None"
proof (induct arbitrary: r and r and r and r rule: consumeToken_star_loop_set_loop_seq_loop.pinduct)
  case (1 st c i step parent prev_result)
  then show ?case by (auto simp: consumeToken.psimps parent_lt_def split: sum.splits option.splits)
next
  case (2 st c i step parent prev_result)
  then show ?case by (auto simp: consumeToken.psimps parent_lt_def split: sum.splits option.splits)
next
  case (3 st c i step parent prev_result)
  then show ?case by (auto simp: consumeToken.psimps parent_lt_def split: sum.splits option.splits)
next
  case (4 st c i step parent prev_result)
  then show ?case by (auto simp: consumeToken.psimps parent_lt_def split: sum.splits option.splits)
next
  case (5 st i step parent prev_result)
  then show ?case by (auto simp: consumeToken.psimps parent_lt_def split: sum.splits option.splits)
next
  case (6 st i step parent prev_result)
  then show ?case by (auto simp: consumeToken.psimps parent_lt_def split: sum.splits option.splits)
next
  case (7 st m i step parent prev_result)
  from "7.prems" "7.hyps"(1) show ?case
    apply (simp add: consumeToken.psimps split: if_splits option.splits prod.splits sum.splits)
    apply (insert "7.hyps"(2-))
    apply (fastforce simp: parent_lt_def next_or_def split: option.splits intro: dir_le_trans)+
    done
next
  case (8 st content i step parent prev_result)
  then show ?case by (auto simp: consumeToken.psimps parent_lt_def split: sum.splits option.splits)
next
  case (9 st content i step parent prev_result)
  then show ?case by (auto simp: consumeToken.psimps parent_lt_def split: sum.splits option.splits)
next
  case (10 st content nti step r0)
  show ?case
  proof (cases "result r0 \<and> interior st (index r0)")
    case False
    with "10.prems" "10.hyps"(1) have "r = r0"
      by (simp add: star_loop.psimps)
    then show ?thesis by simp
  next
    case True
    with "10.prems" "10.hyps"(1) have len: "nti < length content"
      by (simp add: star_loop.psimps split: if_splits)
    with True "10.prems" "10.hyps"(1) obtain r' where
      c: "consumeToken st (content ! nti) (plus_step (index r0) step) step
            (Some (content, nti + 1)) (Some (result r0)) = Inr r'"
      and l: "star_loop st content nti step r' = Inr r"
      by (simp add: star_loop.psimps split: sum.splits)
    from "10.hyps"(2)[OF True len c]
    have 1: "dir_le step (plus_step (index r0) step) (index r')"
      and 2: "parent_lt (Some (content, nti + 1)) r'" by simp_all
    from "10.hyps"(3)[OF True len c l]
    have 3: "dir_le step (index r') (index r)"
      and 4: "parent_lt (Some (content, nti + 1)) r' \<longrightarrow> parent_lt (Some (content, nti + 1)) r"
      by simp_all
    have "dir_le step (index r0) (plus_step (index r0) step)" by simp
    then have "dir_le step (index r0) (index r')" using 1 by (rule dir_le_trans)
    then have "dir_le step (index r0) (index r)" using 3 by (rule dir_le_trans)
    with 2 4 show ?thesis by simp
  qed
next
  case (11 st content i step token_i prev idx)
  show ?case
  proof (cases "token_i < length content")
    case False
    with "11.prems" "11.hyps"(1) show ?thesis
      by (auto simp: set_loop.psimps)
  next
    case True
    with "11.prems" "11.hyps"(1) obtain b where
      c: "consumeToken st (content ! token_i) idx step (Some (content, token_i + 1)) prev = Inr b"
      by (auto simp: set_loop.psimps split: sum.splits)
    show ?thesis
    proof (cases "result b \<and> stops_set content (next_or b (token_i + 1))")
      case stop: True
      with True c "11.prems" "11.hyps"(1) show ?thesis
        by (auto simp: set_loop.psimps)
    next
      case go: False
      with True c "11.prems" "11.hyps"(1) have
        "set_loop st content i step (next_or b (token_i + 1)) (Some (result b)) (index b) = Inr r"
        by (auto simp: set_loop.psimps split: if_splits)
      from "11.hyps"(3)[OF True c go this] show ?thesis .
    qed
  qed
next
  case (12 st content i step token_i prev idx)
  show ?case
  proof (cases "token_i < length content")
    case False
    with "12.prems" "12.hyps"(1) show ?thesis
      by (auto simp: seq_loop.psimps)
  next
    case True
    with "12.prems" "12.hyps"(1) obtain b where
      c: "consumeToken st (content ! token_i) idx step (Some (content, token_i + 1)) prev = Inr b"
      by (auto simp: seq_loop.psimps split: sum.splits)
    from "12.hyps"(2)[OF True c] have ib: "dir_le step idx (index b)" by simp
    show ?thesis
    proof (cases "result b")
      case False
      with True c "12.prems" "12.hyps"(1) show ?thesis
        by (auto simp: seq_loop.psimps)
    next
      case res: True
      let ?idx' = "if content_is_star (content ! token_i) then index b else plus_step (index b) step"
      from True c res "12.prems"(1) "12.hyps"(1) have
        l: "seq_loop st content i step (next_or b (token_i + 1)) (Some (result b)) ?idx' = Inr r"
        by (simp add: seq_loop.psimps)
      have "dir_le step (index b) ?idx'" by simp
      with ib have "dir_le step idx ?idx'" by (rule dir_le_trans)
      with "12.prems"(2) have "dir_le step i ?idx'" by (rule dir_le_trans)
      with "12.hyps"(3)[OF True c _ l] res show ?thesis by simp
    qed
  qed
qed


lemma size_nth_less: "n < length ts \<Longrightarrow> size (ts ! n) < size_list size ts"
proof (induction ts arbitrary: n)
  case Nil
  then show ?case by simp
next
  case (Cons a ts)
  show ?case
  proof (cases n)
    case 0
    then show ?thesis by simp
  next
    case (Suc m)
    with Cons.prems have "m < length ts" by simp
    from Cons.IH[OF this] Suc show ?thesis by simp
  qed
qed

lemma tree_measure_child:
  "b < length a \<Longrightarrow>
     tree_measure (Inl (Inl (st, a ! b, i, step, Some (a, n), p))) =
       (if is_modifier (a ! b) then size_list size a else size (a ! b))"
  by (cases "a ! b") auto

lemma sibling_measure_child:
  "sibling_measure (Inl (Inl (st, t, i, step, Some (a, n), p))) =
       (if is_modifier t then 2 * (length a + 1 - n) else 0)"
  by (cases t) auto


lemma remaining_pos: "interior st x \<Longrightarrow> 0 < remaining st d x"
proof (cases x)
  case NaN
  assume "interior st x"
  with NaN show ?thesis by (simp add: interior_def)
next
  case (Num k)
  assume "interior st x"
  with Num have "0 < k" "k < int (length (codePoints st)) - 1"
    by (simp_all add: interior_def)
  then show ?thesis using Num by (cases d) simp_all
qed

lemma remaining_less:
  "interior st x \<Longrightarrow> dir_le d (plus_step x d) y \<Longrightarrow> interior st y \<Longrightarrow>
     remaining st d y < remaining st d x"
  by (cases d; cases x; cases y) (auto simp: interior_def)

lemma next_or_greater:
  assumes "consumeToken_star_loop_set_loop_seq_loop_dom
             (Inl (Inl (st, t, idx, step, Some (content, Suc token_i), prev)))"
    and "consumeToken st t idx step (Some (content, Suc token_i)) prev = Inr b"
  shows "token_i < next_or b (Suc token_i)"
proof -
  have "parent_lt (Some (content, Suc token_i)) b"
    using progress(1)[OF assms(1,2)] by (rule conjunct2)
  then show ?thesis
    by (cases "next_token_index b") (simp_all add: parent_lt_def next_or_def)
qed

lemma sibling_arith:
  "(token_i::nat) < n \<Longrightarrow> token_i < l \<Longrightarrow>
     2 * (Suc l - n) - Suc 0 < 2 * (Suc l - token_i) - Suc 0"
  by arith

lemma next_or_less:
  assumes "consumeToken_star_loop_set_loop_seq_loop_dom
             (Inl (Inl (st, t, idx, step, Some (content, Suc token_i), prev)))"
    and "consumeToken st t idx step (Some (content, Suc token_i)) prev = Inr b"
    and "token_i < length content"
  shows "2 * (Suc (length content) - next_or b (Suc token_i)) - Suc 0
           < 2 * (Suc (length content) - token_i) - Suc 0"
  using next_or_greater[OF assms(1,2)] assms(3) by (rule sibling_arith)

lemma progress_index:
  assumes "consumeToken_star_loop_set_loop_seq_loop_dom
             (Inl (Inl (st, t, idx, step, parent, prev)))"
    and "consumeToken st t idx step parent prev = Inr b"
  shows "dir_le step idx (index b)"
  using progress(1)[OF assms] by (rule conjunct1)

termination consumeToken
  apply (relation "measures [tree_measure, sibling_measure, index_measure]")
  apply simp
  apply (auto simp: size_nth_less tree_measure_child sibling_measure_child remaining_pos)
  subgoal by (blast intro: remaining_less dest: progress_index)
  subgoal by (blast intro: next_or_less)
  subgoal by (blast intro: next_or_less)
  subgoal by (blast intro: next_or_less)
  done

declare star_loop.simps [simp del] set_loop.simps [simp del] seq_loop.simps [simp del]

subsection \<open>Checking a position\<close>

definition removeCombiningSequences :: "LineBreakingChecker \<Rightarrow> LineBreakingChecker" where
  "removeCombiningSequences st =
     st\<lparr> classes := classesWithoutCS st, codePoints := codePointsWithoutCS st, applyOffset := True \<rparr>"

text \<open>
  \<^verbatim>\<open>rule.side_effect(...(this.#sideEffectArguments[rule.name] ?? []))\<close>. An \<^verbatim>\<open>undefined\<close> name
  reads the property \<^verbatim>\<open>"undefined"\<close>. The side-effect function calls its first argument; with no
  argument registered that is a call of \<^verbatim>\<open>undefined\<close>.
\<close>

definition call_side_effect :: "LineBreakingChecker \<Rightarrow> rule \<Rightarrow> error + LineBreakingChecker" where
  "call_side_effect st r =
     (case side_effect r of
        None \<Rightarrow> Inr st
      | Some CallCallback \<Rightarrow>
          (case (case sideEffectArguments st (case name r of None \<Rightarrow> ''undefined'' | Some n \<Rightarrow> n) of
                   None \<Rightarrow> [] | Some args \<Rightarrow> args) of
             [] \<Rightarrow> Inl TypeError
           | BoundRemoveCombiningSequences # args \<Rightarrow> Inr (removeCombiningSequences st)))"

text \<open>\<^verbatim>\<open>#checkRule\<close> returns \<^verbatim>\<open>rule.result\<close>, which is \<^verbatim>\<open>undefined\<close> for a rule parsed from a
  string without verdict symbol, or \<open>UNKNOWN\<close>; the checker comes back as the side effect left it.\<close>

definition checkRule ::
  "LineBreakingChecker \<Rightarrow> rule \<Rightarrow> number \<Rightarrow> error + (BreakType option \<times> LineBreakingChecker)"
where
  "checkRule st r i =
     (case consumeToken st (before r) (plus_step i Backward) Backward None None of
        Inl e \<Rightarrow> Inl e
      | Inr rb \<Rightarrow>
          (case (if result rb then consumeToken st (after r) i Forward None None
                 else Inr (Res False i None)) of
             Inl e \<Rightarrow> Inl e
           | Inr ra \<Rightarrow>
               if result rb \<and> result ra then Inr (rule_result r, st)
               else (case call_side_effect st r of
                       Inl e \<Rightarrow> Inl e
                     | Inr st' \<Rightarrow> Inr (Some UNKNOWN, st'))))"

text \<open>
  The index handed to \<^verbatim>\<open>#checkRule\<close>,
  \<^verbatim>\<open>i - offsetSurrogates - this.#offsetsCombiningSeqs[i - offsetSurrogates] * !!this.#applyOffset\<close>:
  \<open>NaN\<close> as soon as one of the two array reads is \<^verbatim>\<open>undefined\<close>.
\<close>

definition rule_index :: "LineBreakingChecker \<Rightarrow> int \<Rightarrow> number" where
  "rule_index st i =
     (case lookup (offsetsSurrogates st) (Num i) of
        None \<Rightarrow> NaN
      | Some offsetSurrogates \<Rightarrow>
          (case lookup (offsetsCombiningSeqs st) (Num (i - int offsetSurrogates)) of
             None \<Rightarrow> NaN
           | Some oc \<Rightarrow> Num (i - int offsetSurrogates - (if applyOffset st then int oc else 0))))"

text \<open>The loop \<^verbatim>\<open>for (const rule of this.#rules)\<close> of \<^verbatim>\<open>isPosLineBreaking\<close>.\<close>

fun rules_loop ::
  "LineBreakingChecker \<Rightarrow> rule list \<Rightarrow> int \<Rightarrow> error + (BreakType option \<times> LineBreakingChecker)"
where
  "rules_loop st [] i = Inr (Some UNKNOWN, st)"
| "rules_loop st (r # rs) i =
     (case checkRule st r (rule_index st i) of
        Inl e \<Rightarrow> Inl e
      | Inr (res, st') \<Rightarrow> if res \<noteq> Some UNKNOWN then Inr (res, st') else rules_loop st' rs i)"

definition cleanup :: "LineBreakingChecker \<Rightarrow> LineBreakingChecker" where
  "cleanup st =
     (if applyOffset st
      then st\<lparr> classes := origClasses st, codePoints := origCodePoints st, applyOffset := False \<rparr>
      else st)"

text \<open>\<^verbatim>\<open>isPosLineBreaking(i)\<close> for an integer \<open>i\<close>: the verdict and the checker after the call.
  An exception leaves through \<open>Inl\<close>, before the cleanup.\<close>

definition isPosLineBreaking ::
  "LineBreakingChecker \<Rightarrow> int \<Rightarrow> error + (BreakType option \<times> LineBreakingChecker)"
where
  "isPosLineBreaking st i =
     (if i > 0 \<and> i < int (length (lbc_text st))
         \<and> isSurrogatePair (unat (lbc_text st ! nat (i - 1))) (unat (lbc_text st ! nat i))
      then Inr (Some FORBIDDEN, cleanup st)
      else (case rules_loop st (rules st) i of
              Inl e \<Rightarrow> Inl e
            | Inr (res, st') \<Rightarrow> Inr (res, cleanup st')))"

subsection \<open>The iterator\<close>

text \<open>The value \<^verbatim>\<open>{ index: current, breakType: result }\<close> that \<^verbatim>\<open>next\<close> yields.\<close>

datatype yielded = Yielded (at_index: int) (breakType: "BreakType option")

text \<open>\<^verbatim>\<open>result & lineBreak\<close> with \<^verbatim>\<open>lineBreak = BreakType.MANDATORY|BreakType.ALLOWED\<close>; \<^verbatim>\<open>undefined\<close>
  converts to 0.\<close>

definition masked :: "BreakType option \<Rightarrow> nat" where
  "masked res = (case res of None \<Rightarrow> 0 | Some b \<Rightarrow> flag b AND (flag MANDATORY OR flag ALLOWED))"

lemma rules_loop_text: "rules_loop st rs i = Inr (res, st') \<Longrightarrow> lbc_text st' = lbc_text st"
proof (induction rs arbitrary: st)
  case Nil
  then show ?case by simp
next
  case (Cons r rs)
  from Cons.prems obtain res1 st1 where c: "checkRule st r (rule_index st i) = Inr (res1, st1)"
    by (auto split: sum.splits)
  then have "lbc_text st1 = lbc_text st"
    by (auto simp: checkRule_def call_side_effect_def removeCombiningSequences_def
             split: sum.splits if_splits option.splits side_effect.splits list.splits
                    side_effect_argument.splits)
  with Cons c show ?case by (auto split: if_splits)
qed

lemma isPosLineBreaking_text:
  "isPosLineBreaking st i = Inr (res, st') \<Longrightarrow> lbc_text st' = lbc_text st"
  by (auto simp: isPosLineBreaking_def cleanup_def dest: rules_loop_text split: if_splits sum.splits)

text \<open>
  \<^verbatim>\<open>next()\<close> of the iterator, from the value of the closure variable \<^verbatim>\<open>current\<close>: \<open>None\<close> is
  \<^verbatim>\<open>{ done: true }\<close>. The checker and \<^verbatim>\<open>current\<close> after the call come back with it.
\<close>

function iterator_next ::
  "LineBreakingChecker \<Rightarrow> int \<Rightarrow> error + (yielded option \<times> LineBreakingChecker \<times> int)"
where
  "iterator_next st current =
     (if current + 1 > int (length (lbc_text st)) then Inr (None, st, current + 1)
      else (case isPosLineBreaking st (current + 1) of
              Inl e \<Rightarrow> Inl e
            | Inr (res, st') \<Rightarrow>
                if masked res = 0 then iterator_next st' (current + 1)
                else Inr (Some (Yielded (current + 1) res), st', current + 1)))"
  by pat_completeness auto
termination
  by (relation "measure (\<lambda>(st, current). nat (int (length (lbc_text st)) - current))")
     (auto dest: isPosLineBreaking_text)

declare iterator_next.simps [simp del]

lemma iterator_next_advances:
  "iterator_next st current = Inr (v, st', current') \<Longrightarrow>
     current < current' \<and> lbc_text st' = lbc_text st
     \<and> (v \<noteq> None \<longrightarrow> current' \<le> int (length (lbc_text st)))"
proof (induction st current arbitrary: v st' current' rule: iterator_next.induct)
  case (1 st current)
  show ?case
  proof (cases "current + 1 > int (length (lbc_text st))")
    case True
    with "1.prems" show ?thesis
      by (subst (asm) iterator_next.simps) auto
  next
    case False
    with "1.prems" obtain res st1 where
      c: "isPosLineBreaking st (current + 1) = Inr (res, st1)"
      by (subst (asm) iterator_next.simps) (auto split: sum.splits)
    then have t: "lbc_text st1 = lbc_text st"
      by (rule isPosLineBreaking_text)
    show ?thesis
    proof (cases "masked res = 0")
      case True
      with False c "1.prems" have "iterator_next st1 (current + 1) = Inr (v, st', current')"
        by (subst (asm) iterator_next.simps) simp
      from "1.IH"[OF False c refl True this] t show ?thesis
        by auto
    next
      case nz: False
      with False c "1.prems" t show ?thesis
        by (subst (asm) iterator_next.simps) auto
    qed
  qed
qed

text \<open>What \<^verbatim>\<open>for (const segment of lbc)\<close> sees: the values of \<^verbatim>\<open>next()\<close> up to the first
  \<^verbatim>\<open>{ done: true }\<close>, starting from \<^verbatim>\<open>current = -1\<close>.\<close>

function iterate_from :: "LineBreakingChecker \<Rightarrow> int \<Rightarrow> error + yielded list" where
  "iterate_from st current =
     (case iterator_next st current of
        Inl e \<Rightarrow> Inl e
      | Inr (None, st', current') \<Rightarrow> Inr []
      | Inr (Some v, st', current') \<Rightarrow>
          (case iterate_from st' current' of Inl e \<Rightarrow> Inl e | Inr vs \<Rightarrow> Inr (v # vs)))"
  by pat_completeness auto
termination
  by (relation "measure (\<lambda>(st, current). nat (int (length (lbc_text st)) + 1 - current))")
     (auto dest!: iterator_next_advances)

declare iterate_from.simps [simp del]

definition iterate :: "LineBreakingChecker \<Rightarrow> error + yielded list" where
  "iterate st = iterate_from st (- 1)"


section \<open>The checker with the rules of Unicode 17\<close>

text \<open>The parsed form of the shipped rule list, and the checker \<^verbatim>\<open>makeLBC\<close> builds from it.\<close>

definition rulesV17 :: "rule list" where
  "rulesV17 = (case parseRules lineBreakingRulesV17 of Inl e \<Rightarrow> [] | Inr rs \<Rightarrow> rs)"

definition checkerV17 ::
  "(string option \<Rightarrow> string \<Rightarrow> string option) option \<Rightarrow> (nat \<Rightarrow> table_entry option)
     \<Rightarrow> nat set \<Rightarrow> nat set \<Rightarrow> LineBreakingChecker"
where
  "checkerV17 criteria table east_asian ext_pict =
     initial_checker criteria rulesV17 table east_asian ext_pict"



section \<open>Facts about installing a text\<close>

lemma setCodePoints_fields:
  "lbc_text (setCodePoints st) = lbc_text st"
  "classTable (setCodePoints st) = classTable st"
  "assignLineBreakingClsCriteria (setCodePoints st) = assignLineBreakingClsCriteria st"
  "rules (setCodePoints st) = rules st"
  "sideEffectArguments (setCodePoints st) = sideEffectArguments st"
  by (simp_all add: setCodePoints_def split: prod.splits)

lemma setCombiningSequencesMaps_fields:
  "lbc_text (setCombiningSequencesMaps st) = lbc_text st"
  "classes (setCombiningSequencesMaps st) = classes st"
  "codePoints (setCombiningSequencesMaps st) = codePoints st"
  "offsetsSurrogates (setCombiningSequencesMaps st) = offsetsSurrogates st"
  "rules (setCombiningSequencesMaps st) = rules st"
  "sideEffectArguments (setCombiningSequencesMaps st) = sideEffectArguments st"
  "classTable (setCombiningSequencesMaps st) = classTable st"
  "applyOffset (setCombiningSequencesMaps st) = False"
  by (simp_all add: setCombiningSequencesMaps_def split: prod.splits)

lemma setText_fields:
  "lbc_text (setText st s) = s"
  "applyOffset (setText st s) = False"
  "rules (setText st s) = rules st"
  "sideEffectArguments (setText st s) = sideEffectArguments st"
  "classTable (setText st s) = classTable st"
  "origClasses (setText st s) = classes (setText st s)"
  "origCodePoints (setText st s) = codePoints (setText st s)"
  by (simp_all add: setText_def Let_def setCombiningSequencesMaps_fields setCodePoints_fields)

lemma setText_codePoints:
  "codePoints (setText st s) = codePoints (setCodePoints (st\<lparr> lbc_text := s \<rparr>))"
  by (simp add: setText_def Let_def setCombiningSequencesMaps_fields)

lemma setText_classes:
  "classes (setText st s) =
     assignLineBreakingClasses (setCodePoints (st\<lparr> lbc_text := s \<rparr>)) (assignLineBreakingClsCriteria st)"
  by (simp add: setText_def Let_def setCombiningSequencesMaps_fields setCodePoints_fields)

lemma cleanup_setText: "cleanup (setText st s) = setText st s"
  by (simp add: cleanup_def setText_fields)

section \<open>Positions inside a surrogate pair\<close>

text \<open>
  C7. For every text and every position \<open>k\<close> with a high surrogate (U+D800..U+DBFF) just
  before it and a low surrogate (U+DC00..U+DFFF) just after it, \<open>isPosLineBreaking k\<close> returns
  FORBIDDEN and leaves the checker as \<open>setText\<close> made it. The rule list of the checker is
  arbitrary, so the verdict does not come from a rule: the first branch of the function
  answers before the loop over the rules is entered.
\<close>

theorem surrogate_interior_forbidden:
  assumes "0 < k" and "k < int (length s)"
    and "0xD800 \<le> unat (s ! nat (k - 1))" and "unat (s ! nat (k - 1)) \<le> 0xDBFF"
    and "0xDC00 \<le> unat (s ! nat k)" and "unat (s ! nat k) \<le> 0xDFFF"
  shows "isPosLineBreaking (setText st s) k = Inr (Some FORBIDDEN, setText st s)"
  using assms
  by (simp add: isPosLineBreaking_def isSurrogatePair_def setText_fields cleanup_setText)

theorem surrogate_interior_forbidden_witness:
  "isPosLineBreaking (setText (initial_checker None [] (\<lambda>c. None) {} {}) [0xD83C, 0xDDEB]) 1
     = Inr (Some FORBIDDEN, setText (initial_checker None [] (\<lambda>c. None) {} {}) [0xD83C, 0xDDEB])"
  using surrogate_interior_forbidden
          [of 1 "[0xD83C, 0xDDEB]" "initial_checker None [] (\<lambda>c. None) {} {}"]
  by simp

section \<open>Code points without table entry\<close>

text \<open>
  C4 as the code has it. When the class table has no entry for a code point of the text and no
  criterion was given, \<open>getClsAndGC\<close> yields an undefined class and the empty string as
  general category, and the class stored for that code point is undefined (neither \<open>AL\<close> nor
  any other class). \<open>setText\<close> has no failing branch, so nothing is raised.
\<close>

theorem missing_entry_gives_undefined_class:
  assumes "assignLineBreakingClsCriteria st = None"
    and "i < length (codePoints (setText st s))"
    and "classTable st (codePoints (setText st s) ! i) = None"
  shows "getClsAndGC (setText st s) (codePoints (setText st s) ! i) = (None, [])
         \<and> length (classes (setText st s)) = length (codePoints (setText st s))
         \<and> classes (setText st s) ! i = None"
  using assms
  by (simp add: setText_classes setText_codePoints setText_fields assignLineBreakingClasses_def
        getClsAndGC_def resolve_class_def setCodePoints_fields)

lemma setCodePoints_one:
  "setCodePoints_loop [0x61] 0 [] [] 0 False = ([0x61], [0, 0])"
  by (simp add: setCodePoints_loop.simps codePointAt_def Let_def)

theorem missing_entry_gives_undefined_class_witness:
  "getClsAndGC (setText (initial_checker None [] (\<lambda>c. None) {} {}) [0x61]) 0x61 = (None, [])
   \<and> classes (setText (initial_checker None [] (\<lambda>c. None) {} {}) [0x61]) ! 0 = None"
proof -
  let ?st = "initial_checker None [] (\<lambda>c. None) {} {}"
  have cp: "codePoints (setText ?st [0x61]) = [0x61]"
    by (simp add: setText_codePoints setCodePoints_def setCodePoints_one)
  have "assignLineBreakingClsCriteria ?st = None" and "classTable ?st 0x61 = None"
    by (simp_all add: initial_checker_def)
  with missing_entry_gives_undefined_class[of ?st 0 "[0x61]"] cp show ?thesis
    by simp
qed

text \<open>
  C4 as stated fails: with an empty class table the one code point of the text \<open>a\<close> gets an
  undefined class, not \<open>AL\<close>, and its general category is reported as the empty string,
  not \<open>Cn\<close>.
\<close>

theorem missing_entry_counterexample:
  "classes (setText (initial_checker None [] (\<lambda>c. None) {} {}) [0x61]) = [None]
   \<and> classes (setText (initial_checker None [] (\<lambda>c. None) {} {}) [0x61]) ! 0 \<noteq> Some ''AL''
   \<and> getClsAndGC (setText (initial_checker None [] (\<lambda>c. None) {} {}) [0x61]) 0x61 = (None, [])
   \<and> snd (getClsAndGC (setText (initial_checker None [] (\<lambda>c. None) {} {}) [0x61]) 0x61) \<noteq> ''Cn''"
  by (simp add: setText_classes setText_fields setCodePoints_def setCodePoints_one
        assignLineBreakingClasses_def getClsAndGC_def resolve_class_def initial_checker_def)

end
